theory Spec2Isabelle
  imports Complex_Main
begin

section \<open>The distance engine of wildboar (\<^verbatim>\<open>wildboar/distance/_distance.pyx\<close>)\<close>

text \<open>
  A shallow embedding of the structs, the measure classes and the two facade functions
  \<^verbatim>\<open>distance\<close> and \<^verbatim>\<open>matches\<close>. Every raise of the source is a value \<open>Inl e\<close>; the calls of
  \<^verbatim>\<open>malloc\<close> and \<^verbatim>\<open>free\<close> and each entry into a native distance routine are recorded as
  events, in program order, so that statements about "before any native computation" and
  about the life of a buffer are statements about the event list of a call.
\<close>

subsection \<open>Values\<close>

text \<open>
  A C \<^verbatim>\<open>double\<close> is either the value \<^verbatim>\<open>NAN\<close> or a finite number. Rounding and the
  infinities are not modelled: the arithmetic below is the arithmetic of the reals.
  \<^verbatim>\<open>size_t\<close> values are natural numbers; the coercion of a Python object to \<^verbatim>\<open>size_t\<close>
  is written out where the source performs it.
\<close>

datatype double = NaN | Fin real

fun dadd :: "double \<Rightarrow> double \<Rightarrow> double" where
  "dadd (Fin a) (Fin b) = Fin (a + b)"
| "dadd _ _ = NaN"

fun dsub :: "double \<Rightarrow> double \<Rightarrow> double" where
  "dsub (Fin a) (Fin b) = Fin (a - b)"
| "dsub _ _ = NaN"

fun dmul :: "double \<Rightarrow> double \<Rightarrow> double" where
  "dmul (Fin a) (Fin b) = Fin (a * b)"
| "dmul _ _ = NaN"

text \<open>Division of a double by a \<^verbatim>\<open>size_t\<close> count; \<^verbatim>\<open>0.0 / 0\<close> is \<^verbatim>\<open>NAN\<close> in C.\<close>

fun ddiv_count :: "double \<Rightarrow> nat \<Rightarrow> double" where
  "ddiv_count (Fin a) n = (if n = 0 then NaN else Fin (a / real n))"
| "ddiv_count NaN n = NaN"

fun dsqrt :: "double \<Rightarrow> double" where
  "dsqrt (Fin a) = (if a < 0 then NaN else Fin (sqrt a))"
| "dsqrt NaN = NaN"

datatype error =
    ValueError
  | TypeError
  | OverflowError
  | IndexError
  | NotImplementedError
  | MemoryFault

text \<open>
  \<open>MemoryFault\<close> stands for a read through a null pointer or outside a buffer: the file is
  compiled with \<^verbatim>\<open>boundscheck=False\<close>, so the source does not raise there.
\<close>

subsection \<open>Structs\<close>

record TSView =
  tv_index :: nat
  tv_start :: nat
  tv_length :: nat
  tv_dim :: nat
  tv_mean :: double
  tv_std :: double
  tv_extra :: "nat option"

text \<open>
  \<open>tc_data = None\<close> is the null pointer. \<open>tc_ts_start\<close> and \<open>tc_ts_index\<close> are written by
  \<^verbatim>\<open>init_ts_copy\<close> only; \<open>None\<close> is a field that was never assigned.
\<close>

record TSCopy =
  tc_dim :: nat
  tc_length :: nat
  tc_mean :: double
  tc_std :: double
  tc_data :: "double list option"
  tc_ts_start :: "nat option"
  tc_ts_index :: "nat option"

record TSDatabase =
  n_samples :: nat
  n_timestep :: nat
  n_dims :: nat
  data :: "double list"
  sample_stride :: nat
  dim_stride :: nat
  timestep_stride :: nat

text \<open>
  A numpy array of doubles in row-major contiguous layout: its shape and its flat contents,
  one value for each index the shape allows.
\<close>

record ndarray =
  nd_shape :: "nat list"
  nd_data :: "double list"

definition ndim :: "ndarray \<Rightarrow> nat" where
  "ndim a = length (nd_shape a)"

subsection \<open>Events of a call\<close>

datatype buffer = ShapeData | MatchesBuf | DistancesBuf

datatype native_method = SubDistance | WholeDistance | SubMatches

datatype event =
    Malloc buffer
  | MallocNull buffer
  | Free buffer
  | NativeCall native_method nat

type_synonym 'a run = "event list \<times> (error + 'a)"

definition ok :: "'a \<Rightarrow> 'a run" where
  "ok a = ([], Inr a)"

definition raise :: "error \<Rightarrow> 'a run" where
  "raise e = ([], Inl e)"

definition emit :: "event \<Rightarrow> unit run" where
  "emit ev = ([ev], Inr ())"

definition lift :: "error + 'a \<Rightarrow> 'a run" where
  "lift r = ([], r)"

text \<open>Sequencing: an error ends the call; the events of both parts are kept in order.\<close>

definition bind :: "'a run \<Rightarrow> ('a \<Rightarrow> 'b run) \<Rightarrow> 'b run" where
  "bind m f =
     (case m of
        (tr, Inl e) \<Rightarrow> (tr, Inl e)
      | (tr, Inr a) \<Rightarrow> (case f a of (tr', r) \<Rightarrow> (tr @ tr', r)))"

subsection \<open>Reading a flat buffer\<close>

definition read_at :: "double list \<Rightarrow> nat \<Rightarrow> error + double" where
  "read_at buf p = (if p < length buf then Inr (buf ! p) else Inl MemoryFault)"

subsection \<open>\<^verbatim>\<open>ts_copy_free\<close>\<close>

text \<open>\<^verbatim>\<open>ts_copy_free\<close> on a non-null struct pointer: frees the data buffer unless it is null.\<close>

definition ts_copy_free :: "TSCopy \<Rightarrow> event list" where
  "ts_copy_free shapelet = (if tc_data shapelet \<noteq> None then [Free ShapeData] else [])"

subsection \<open>\<^verbatim>\<open>_ts_view_update_statistics\<close>\<close>

text \<open>
  The loop \<^verbatim>\<open>for i in range(s.length)\<close>, accumulating \<open>ex\<close> and \<open>ex2\<close>.
\<close>

fun update_loop :: "double list \<Rightarrow> nat \<Rightarrow> nat \<Rightarrow> nat list \<Rightarrow> double \<times> double \<Rightarrow> error + double \<times> double" where
  "update_loop buf off stride [] acc = Inr acc"
| "update_loop buf off stride (i # is) (ex, ex2) =
     (case read_at buf (off + i * stride) of
        Inl e \<Rightarrow> Inl e
      | Inr current_value \<Rightarrow>
          update_loop buf off stride is
            (dadd ex current_value, dadd ex2 (dmul current_value current_value)))"

text \<open>
  The statistics as the function computes them into its local variable \<open>s\<close>.
\<close>

definition local_statistics :: "TSView \<Rightarrow> TSDatabase \<Rightarrow> error + TSView" where
  "local_statistics s t =
     (let shapelet_offset = tv_index s * sample_stride t + tv_dim s * dim_stride t
                            + tv_start s * timestep_stride t
      in case update_loop (data t) shapelet_offset (timestep_stride t) [0..<tv_length s] (Fin 0, Fin 0) of
           Inl e \<Rightarrow> Inl e
         | Inr (ex, ex2) \<Rightarrow>
             (let s1 = s\<lparr>tv_mean := ddiv_count ex (tv_length s)\<rparr>;
                  s2 = s1\<lparr>tv_std := dsqrt (dsub (ddiv_count ex2 (tv_length s1))
                                                (dmul (tv_mean s1) (tv_mean s1)))\<rparr>
              in Inr s2))"

text \<open>
  \<^verbatim>\<open>cdef TSView s = s_ptr[0]\<close> copies the struct: the assignments to \<open>s.mean\<close> and \<open>s.std\<close>
  change the local copy, and nothing is stored back through \<open>s_ptr\<close>. The function gives
  the struct behind \<open>s_ptr\<close> after the call and the return code.
\<close>

definition ts_view_update_statistics :: "TSView \<Rightarrow> TSDatabase \<Rightarrow> error + TSView \<times> int" where
  "ts_view_update_statistics s_ptr t_ptr =
     (case local_statistics s_ptr t_ptr of
        Inl e \<Rightarrow> Inl e
      | Inr s \<Rightarrow> Inr (s_ptr, 0))"

subsection \<open>The measure classes\<close>

text \<open>
  \<open>DistanceMeasure\<close>, \<open>ScaledDistanceMeasure\<close> and \<open>FuncDistanceMeasure\<close> are defined in this
  file. The four classes of the registry \<^verbatim>\<open>_DISTANCE_MEASURE\<close> live in the modules
  \<^verbatim>\<open>_euclidean_distance\<close> and \<^verbatim>\<open>_dtw_distance\<close>.
\<close>

datatype measure_class =
    DistanceMeasure
  | ScaledDistanceMeasure
  | FuncDistanceMeasure
  | EuclideanDistance
  | DtwDistance
  | ScaledEuclideanDistance
  | ScaledDtwDistance

text \<open>
  Modelled from the spec: the class declarations of the four registry classes are not
  among the sources. The specification describes scaled Euclidean and scaled DTW as the
  scaled variants ("Scaled variants additionally compute mean/std over the copied
  values"), the other two as unscaled.
\<close>

fun is_scaled :: "measure_class \<Rightarrow> bool" where
  "is_scaled ScaledDistanceMeasure = True"
| "is_scaled ScaledEuclideanDistance = True"
| "is_scaled ScaledDtwDistance = True"
| "is_scaled _ = False"

text \<open>\<^verbatim>\<open>DistanceMeasure.init_ts_view\<close>: fills the struct and returns \<open>0\<close>.\<close>

definition base_init_ts_view :: "TSView \<Rightarrow> nat \<Rightarrow> nat \<Rightarrow> nat \<Rightarrow> nat \<Rightarrow> TSView \<times> int" where
  "base_init_ts_view shapelet_info index start len dimn =
     (shapelet_info\<lparr>tv_index := index, tv_dim := dimn, tv_start := start, tv_length := len,
                    tv_mean := NaN, tv_std := NaN, tv_extra := None\<rparr>, 0)"

text \<open>
  \<^verbatim>\<open>ScaledDistanceMeasure.init_ts_view\<close>: the base initialiser, then
  \<^verbatim>\<open>_ts_view_update_statistics(tv, td)\<close>, then \<^verbatim>\<open>return -1\<close>.
\<close>

definition scaled_init_ts_view :: "TSDatabase \<Rightarrow> TSView \<Rightarrow> nat \<Rightarrow> nat \<Rightarrow> nat \<Rightarrow> nat \<Rightarrow> error + TSView \<times> int" where
  "scaled_init_ts_view td tv index start len dimn =
     (case base_init_ts_view tv index start len dimn of
        (tv1, _) \<Rightarrow>
          (case ts_view_update_statistics tv1 td of
             Inl e \<Rightarrow> Inl e
           | Inr (tv2, _) \<Rightarrow> Inr (tv2, -1)))"

definition init_ts_view :: "measure_class \<Rightarrow> TSDatabase \<Rightarrow> TSView \<Rightarrow> nat \<Rightarrow> nat \<Rightarrow> nat \<Rightarrow> nat \<Rightarrow> error + TSView \<times> int" where
  "init_ts_view c td tv index start len dimn =
     (if is_scaled c then scaled_init_ts_view td tv index start len dimn
      else Inr (base_init_ts_view tv index start len dimn))"

subsection \<open>Python arguments of the facade\<close>

text \<open>
  The \<^verbatim>\<open>sample\<close> argument: \<^verbatim>\<open>None\<close>, a Python \<^verbatim>\<open>int\<close>, a Python list of integers, or a
  one-dimensional numpy array of integers. The \<^verbatim>\<open>metric\<close> argument: a string, a callable,
  or any other object. A callable takes the two buffers and gives the distance.
\<close>

datatype py_sample = SampleNone | SampleInt int | SampleList "int list" | SampleArray "int list"

type_synonym callable = "double list \<Rightarrow> double list \<Rightarrow> double"

datatype py_metric = MetricStr string | MetricCallable callable | MetricOther

text \<open>
  Passing a Python object where a \<^verbatim>\<open>size_t\<close> is declared: an integer outside
  \<open>0 .. 2^64 - 1\<close> raises \<^verbatim>\<open>OverflowError\<close>; a list is not a number (\<^verbatim>\<open>TypeError\<close>); a numpy
  array converts only when it holds exactly one element.
\<close>

definition as_size_t_int :: "int \<Rightarrow> error + nat" where
  "as_size_t_int n = (if n < 0 \<or> 2 ^ 64 \<le> n then Inl OverflowError else Inr (nat n))"

fun as_size_t :: "py_sample \<Rightarrow> error + nat" where
  "as_size_t (SampleInt n) = as_size_t_int n"
| "as_size_t (SampleArray [x]) = as_size_t_int x"
| "as_size_t _ = Inl TypeError"

subsection \<open>The library call \<^verbatim>\<open>check_array\<close>\<close>

text \<open>
  \<^verbatim>\<open>sklearn.utils.check_array\<close> is a library function outside the repository. The model
  keeps the checks of its defaults that decide which arrays reach the code of this file:
  a zero-dimensional array is refused, more than two axes are refused unless
  \<^verbatim>\<open>allow_nd\<close>, there is at least one sample and (in two dimensions) one feature, and no
  value is \<^verbatim>\<open>NAN\<close>. The array itself comes back unchanged.
\<close>

definition check_array :: "bool \<Rightarrow> ndarray \<Rightarrow> error + ndarray" where
  "check_array allow_nd a =
     (if nd_shape a = [] then Inl TypeError
      else if \<not> allow_nd \<and> 3 \<le> ndim a then Inl ValueError
      else if hd (nd_shape a) = 0 then Inl ValueError
      else if ndim a = 2 \<and> nd_shape a ! 1 = 0 then Inl ValueError
      else if NaN \<in> set (nd_data a) then Inl ValueError
      else Inr a)"

text \<open>\<^verbatim>\<open>check_array(sample, ensure_2d=False, dtype=np.int)\<close> on a sequence of integers.\<close>

definition check_array_int :: "int list \<Rightarrow> error + int list" where
  "check_array_int xs = (if xs = [] then Inl ValueError else Inr xs)"

text \<open>\<open>x.shape[0]\<close> of an array with at least one axis.\<close>

definition shape0 :: "ndarray \<Rightarrow> nat" where
  "shape0 a = hd (nd_shape a)"

subsection \<open>Validation helpers\<close>

definition validate_shapelet :: "ndarray \<Rightarrow> error + ndarray" where
  "validate_shapelet shapelet =
     (case check_array False shapelet of
        Inl e \<Rightarrow> Inl e
      | Inr s \<Rightarrow> if ndim s > 1 then Inl ValueError else Inr s)"

text \<open>
  \<^verbatim>\<open>x.reshape(-1, x.shape[0])\<close> on a one-dimensional array of \<open>n > 0\<close> values gives shape
  \<open>(1, n)\<close>.
\<close>

definition validate_data :: "ndarray \<Rightarrow> error + ndarray" where
  "validate_data data_in =
     (case check_array True data_in of
        Inl e \<Rightarrow> Inl e
      | Inr x \<Rightarrow> if ndim x = 1 then Inr (x\<lparr>nd_shape := [1, shape0 x]\<rparr>) else Inr x)"

definition check_sample :: "int \<Rightarrow> int \<Rightarrow> error + unit" where
  "check_sample sample n = (if sample < 0 \<or> sample \<ge> n then Inl ValueError else Inr ())"

definition check_dim :: "int \<Rightarrow> int \<Rightarrow> error + unit" where
  "check_dim dimn ndims = (if dimn < 0 \<or> dimn \<ge> ndims then Inl ValueError else Inr ())"

subsection \<open>\<^verbatim>\<open>ts_database_new\<close>\<close>

text \<open>
  Modelled from the spec: \<^verbatim>\<open>check_array_fast\<close> (module \<^verbatim>\<open>wildboar._utils\<close>) is not among the
  sources; by the specification it hands back the array in row-major contiguous layout,
  which every \<open>ndarray\<close> of this model has. The strides, in elements, are those of that
  layout.
\<close>

definition ts_database_new :: "ndarray \<Rightarrow> error + TSDatabase" where
  "ts_database_new a =
     (if ndim a < 2 \<or> ndim a > 3 then Inl ValueError
      else if ndim a = 3 then
        Inr \<lparr>n_samples = nd_shape a ! 0, n_timestep = nd_shape a ! 2, n_dims = nd_shape a ! 1,
             data = nd_data a, sample_stride = nd_shape a ! 1 * nd_shape a ! 2,
             dim_stride = nd_shape a ! 2, timestep_stride = 1\<rparr>
      else
        Inr \<lparr>n_samples = nd_shape a ! 0, n_timestep = nd_shape a ! 1, n_dims = 1,
             data = nd_data a, sample_stride = nd_shape a ! 1,
             dim_stride = 0, timestep_stride = 1\<rparr>)"

subsection \<open>Measure instances and their methods\<close>

record measure =
  m_class :: measure_class
  m_n_timestep :: nat
  m_func :: "callable option"

text \<open>What \<^verbatim>\<open>ts_copy_sub_matches\<close> hands back through its three out-parameters.\<close>

record match_buffers =
  mb_matches :: "nat \<Rightarrow> nat"
  mb_distances :: "nat \<Rightarrow> double"
  mb_n_matches :: nat

text \<open>
  The methods of the four registry classes are parameters of the model. A sub-distance
  gives the distance and, when it stores one, the value written through
  \<^verbatim>\<open>return_index\<close>.
\<close>

record natives =
  nat_support_unaligned :: "measure \<Rightarrow> bool"
  nat_sub_distance :: "measure \<Rightarrow> TSCopy \<Rightarrow> TSDatabase \<Rightarrow> nat \<Rightarrow> error + double \<times> nat option"
  nat_distance :: "measure \<Rightarrow> TSCopy \<Rightarrow> TSDatabase \<Rightarrow> nat \<Rightarrow> error + double"
  nat_sub_matches :: "measure \<Rightarrow> TSCopy \<Rightarrow> TSDatabase \<Rightarrow> nat \<Rightarrow> double \<Rightarrow> error + match_buffers"

definition in_this_file :: "measure_class \<Rightarrow> bool" where
  "in_this_file c = (c = DistanceMeasure \<or> c = ScaledDistanceMeasure \<or> c = FuncDistanceMeasure)"

text \<open>
  \<^verbatim>\<open>support_unaligned\<close>: the base class has \<^verbatim>\<open>return 0\<close>, \<open>ScaledDistanceMeasure\<close>
  inherits it, \<open>FuncDistanceMeasure\<close> overrides it with \<^verbatim>\<open>return False\<close>.
\<close>

definition DistanceMeasure_support_unaligned :: bool where
  "DistanceMeasure_support_unaligned = False"

definition FuncDistanceMeasure_support_unaligned :: bool where
  "FuncDistanceMeasure_support_unaligned = False"

definition support_unaligned :: "natives \<Rightarrow> measure \<Rightarrow> bool" where
  "support_unaligned nats m =
     (case m_class m of
        DistanceMeasure \<Rightarrow> DistanceMeasure_support_unaligned
      | ScaledDistanceMeasure \<Rightarrow> DistanceMeasure_support_unaligned
      | FuncDistanceMeasure \<Rightarrow> FuncDistanceMeasure_support_unaligned
      | _ \<Rightarrow> nat_support_unaligned nats m)"

text \<open>
  \<^verbatim>\<open>DistanceMeasure.init_ts_copy_from_ndarray\<close>. The allocator's answer \<open>mem\<close> is an input:
  \<open>True\<close> when \<^verbatim>\<open>malloc\<close> returned memory. The result is the struct and the return code.
\<close>

definition base_init_ts_copy_from_ndarray :: "bool \<Rightarrow> TSCopy \<Rightarrow> ndarray \<Rightarrow> nat \<Rightarrow> event list \<times> TSCopy \<times> int" where
  "base_init_ts_copy_from_ndarray mem tc arr dimn =
     (let tc1 = tc\<lparr>tc_dim := dimn, tc_length := shape0 arr, tc_mean := NaN, tc_std := NaN\<rparr>
      in if \<not> mem then ([MallocNull ShapeData], tc1\<lparr>tc_data := None\<rparr>, -1)
         else ([Malloc ShapeData],
               tc1\<lparr>tc_data := Some (map (\<lambda>i. nd_data arr ! i) [0..<tc_length tc1])\<rparr>, 0))"

text \<open>\<^verbatim>\<open>np.mean\<close> and \<^verbatim>\<open>np.std\<close> (population standard deviation) of a non-empty array.\<close>

definition np_mean :: "double list \<Rightarrow> double" where
  "np_mean xs = ddiv_count (foldl dadd (Fin 0) xs) (length xs)"

definition np_std :: "double list \<Rightarrow> double" where
  "np_std xs = dsqrt (np_mean (map (\<lambda>x. dmul (dsub x (np_mean xs)) (dsub x (np_mean xs))) xs))"

definition scaled_init_ts_copy_from_ndarray :: "bool \<Rightarrow> TSCopy \<Rightarrow> ndarray \<Rightarrow> nat \<Rightarrow> event list \<times> TSCopy \<times> int" where
  "scaled_init_ts_copy_from_ndarray mem tc arr dimn =
     (case base_init_ts_copy_from_ndarray mem tc arr dimn of
        (tr, tc1, err) \<Rightarrow>
          if err = -1 then (tr, tc1, -1)
          else (tr, tc1\<lparr>tc_mean := np_mean (nd_data arr), tc_std := np_std (nd_data arr)\<rparr>, 0))"

definition init_ts_copy_from_ndarray :: "measure \<Rightarrow> bool \<Rightarrow> TSCopy \<Rightarrow> ndarray \<Rightarrow> nat \<Rightarrow> event list \<times> TSCopy \<times> int" where
  "init_ts_copy_from_ndarray m mem tc arr dimn =
     (if is_scaled (m_class m) then scaled_init_ts_copy_from_ndarray mem tc arr dimn
      else base_init_ts_copy_from_ndarray mem tc arr dimn)"

text \<open>Reading a buffer at a list of positions, in order.\<close>

fun read_all :: "double list \<Rightarrow> nat list \<Rightarrow> error + double list" where
  "read_all buf [] = Inr []"
| "read_all buf (p # ps) =
     (case read_at buf p of
        Inl e \<Rightarrow> Inl e
      | Inr v \<Rightarrow> (case read_all buf ps of Inl e \<Rightarrow> Inl e | Inr vs \<Rightarrow> Inr (v # vs)))"

text \<open>
  \<^verbatim>\<open>FuncDistanceMeasure.ts_copy_sub_distance\<close>: fills \<open>x_buffer\<close> with the pattern and
  \<open>y_buffer\<close> with the sample, then calls the callable on \<open>x_buffer[:s.length]\<close> and
  \<open>y_buffer\<close>. Both buffers have \<open>n_timestep\<close> entries, so the slice holds the first
  \<open>min s.length n_timestep\<close> values of the pattern. Nothing is stored through
  \<^verbatim>\<open>return_index\<close>.
\<close>

definition func_ts_copy_sub_distance :: "callable \<Rightarrow> TSCopy \<Rightarrow> TSDatabase \<Rightarrow> nat \<Rightarrow> error + double \<times> nat option" where
  "func_ts_copy_sub_distance f s td t_index =
     (let sample_offset = t_index * sample_stride td + tc_dim s * dim_stride td
      in case read_all (case tc_data s of None \<Rightarrow> [] | Some b \<Rightarrow> b)
                [0..<min (tc_length s) (n_timestep td)] of
           Inl e \<Rightarrow> Inl e
         | Inr x_buffer \<Rightarrow>
             (case read_all (data td)
                     (map (\<lambda>i. sample_offset + timestep_stride td * i) [0..<n_timestep td]) of
                Inl e \<Rightarrow> Inl e
              | Inr y_buffer \<Rightarrow> Inr (f x_buffer y_buffer, None)))"

text \<open>
  Dispatch of the three native methods. The base class raises \<^verbatim>\<open>NotImplementedError\<close> in
  \<^verbatim>\<open>ts_copy_sub_distance\<close> and \<^verbatim>\<open>ts_copy_sub_matches\<close>; \<^verbatim>\<open>ts_copy_distance\<close> of the base
  class and of \<open>FuncDistanceMeasure\<close> calls \<^verbatim>\<open>ts_copy_sub_distance\<close> without a
  \<^verbatim>\<open>return_index\<close>.
\<close>

definition ts_copy_sub_distance :: "natives \<Rightarrow> measure \<Rightarrow> TSCopy \<Rightarrow> TSDatabase \<Rightarrow> nat \<Rightarrow> error + double \<times> nat option" where
  "ts_copy_sub_distance nats m s td t_index =
     (if m_class m = FuncDistanceMeasure then
        (case m_func m of
           None \<Rightarrow> Inl TypeError
         | Some f \<Rightarrow> func_ts_copy_sub_distance f s td t_index)
      else if in_this_file (m_class m) then Inl NotImplementedError
      else nat_sub_distance nats m s td t_index)"

definition ts_copy_distance :: "natives \<Rightarrow> measure \<Rightarrow> TSCopy \<Rightarrow> TSDatabase \<Rightarrow> nat \<Rightarrow> error + double" where
  "ts_copy_distance nats m s td t_index =
     (if in_this_file (m_class m) then
        (case ts_copy_sub_distance nats m s td t_index of
           Inl e \<Rightarrow> Inl e
         | Inr (d, _) \<Rightarrow> Inr d)
      else nat_distance nats m s td t_index)"

definition ts_copy_sub_matches :: "natives \<Rightarrow> measure \<Rightarrow> TSCopy \<Rightarrow> TSDatabase \<Rightarrow> nat \<Rightarrow> double \<Rightarrow> error + match_buffers" where
  "ts_copy_sub_matches nats m s td t_index threshold =
     (if in_this_file (m_class m) then Inl NotImplementedError
      else nat_sub_matches nats m s td t_index threshold)"

subsection \<open>\<^verbatim>\<open>_new_match_array\<close>, \<^verbatim>\<open>_new_distance_array\<close>, \<^verbatim>\<open>new_distance_measure\<close>\<close>

text \<open>\<open>None\<close> is Python's \<^verbatim>\<open>None\<close>; an array is the list of its entries.\<close>

definition new_match_array :: "(nat \<Rightarrow> nat) \<Rightarrow> nat \<Rightarrow> nat list option" where
  "new_match_array matches_buf n =
     (if n > 0 then Some (map (\<lambda>i. matches_buf i) [0..<n]) else None)"

definition new_distance_array :: "(nat \<Rightarrow> double) \<Rightarrow> nat \<Rightarrow> double list option" where
  "new_distance_array distances_buf n =
     (if n > 0 then Some (map (\<lambda>i. distances_buf i) [0..<n]) else None)"

definition DISTANCE_MEASURE :: "(string \<times> measure_class) list" where
  "DISTANCE_MEASURE =
     [(''euclidean'', EuclideanDistance),
      (''dtw'', DtwDistance),
      (''scaled_euclidean'', ScaledEuclideanDistance),
      (''scaled_dtw'', ScaledDtwDistance)]"

text \<open>
  \<^verbatim>\<open>metric_params\<close> is handed to the constructor of a registry class and to nothing else;
  it is left out of the model, and constructing a registry class succeeds.
\<close>

definition new_distance_measure :: "py_metric \<Rightarrow> nat \<Rightarrow> error + measure" where
  "new_distance_measure metric n =
     (case metric of
        MetricStr name \<Rightarrow>
          (case map_of DISTANCE_MEASURE name of
             Some c \<Rightarrow> Inr \<lparr>m_class = c, m_n_timestep = n, m_func = None\<rparr>
           | None \<Rightarrow> Inl ValueError)
      | MetricCallable f \<Rightarrow> Inr \<lparr>m_class = FuncDistanceMeasure, m_n_timestep = n, m_func = Some f\<rparr>
      | MetricOther \<Rightarrow> Inl ValueError)"

subsection \<open>The facade function \<^verbatim>\<open>distance\<close>\<close>

text \<open>
  \<^verbatim>\<open>cdef TSCopy shape\<close>: a struct on the stack. Every field the facade or a native method
  reads is assigned by \<^verbatim>\<open>init_ts_copy_from_ndarray\<close> first.
\<close>

definition stack_TSCopy :: TSCopy where
  "stack_TSCopy = \<lparr>tc_dim = 0, tc_length = 0, tc_mean = NaN, tc_std = NaN, tc_data = None,
                    tc_ts_start = None, tc_ts_index = None\<rparr>"

text \<open>
  \<^verbatim>\<open>sample = 0\<close> when the data has one sample, \<^verbatim>\<open>np.arange(x.shape[0])\<close> otherwise.
\<close>

definition default_sample :: "py_sample \<Rightarrow> ndarray \<Rightarrow> py_sample" where
  "default_sample sample x =
     (if sample = SampleNone then
        (if shape0 x = 1 then SampleInt 0 else SampleArray (map int [0..<shape0 x]))
      else sample)"

datatype distance_result =
    Dist double
  | DistIndex double "nat option"
  | Dists "double list"
  | DistsIndices "double list" "nat option list"

text \<open>
  One evaluation of the \<^verbatim>\<open>if subsequence_distance: ... else: ...\<close> block. \<open>sub_arg\<close> is the
  object passed as \<open>t_index\<close> in the first branch and \<open>whole_arg\<close> the one passed in the
  second. \<open>min_index\<close> is the C variable of that name: \<open>None\<close> while nothing was stored
  in it. The result is \<open>min_dist\<close> and \<open>min_index\<close> after the block.
\<close>

definition distance_block :: "natives \<Rightarrow> measure \<Rightarrow> TSCopy \<Rightarrow> TSDatabase \<Rightarrow> bool \<Rightarrow> py_sample \<Rightarrow> py_sample \<Rightarrow> nat option \<Rightarrow> (double \<times> nat option) run" where
  "distance_block nats dm shape sd subsequence_distance sub_arg whole_arg min_index =
     (if subsequence_distance then
        bind (lift (as_size_t sub_arg)) (\<lambda>t.
        bind (emit (NativeCall SubDistance t)) (\<lambda>_.
        bind (lift (ts_copy_sub_distance nats dm shape sd t)) (\<lambda>(min_dist, stored).
        ok (min_dist, case stored of None \<Rightarrow> min_index | Some p \<Rightarrow> Some p))))
      else
        bind (lift (as_size_t whole_arg)) (\<lambda>t.
        bind (emit (NativeCall WholeDistance t)) (\<lambda>_.
        bind (lift (ts_copy_distance nats dm shape sd t)) (\<lambda>min_dist.
        ok (min_dist, Some 0)))))"

text \<open>
  The loop \<^verbatim>\<open>for i in samples\<close> of the batch branch: the first branch passes \<open>i\<close>, the
  second passes \<open>sample\<close>.
\<close>

fun distance_loop :: "natives \<Rightarrow> measure \<Rightarrow> TSCopy \<Rightarrow> TSDatabase \<Rightarrow> bool \<Rightarrow> py_sample \<Rightarrow> int list \<Rightarrow> nat option \<Rightarrow> double list \<Rightarrow> nat option list \<Rightarrow> (double list \<times> nat option list) run" where
  "distance_loop nats dm shape sd subsequence_distance sample [] min_index dist_list ind_list =
     ok (dist_list, ind_list)"
| "distance_loop nats dm shape sd subsequence_distance sample (i # rest) min_index dist_list ind_list =
     bind (distance_block nats dm shape sd subsequence_distance (SampleInt i) sample min_index)
       (\<lambda>(min_dist, min_index').
          distance_loop nats dm shape sd subsequence_distance sample rest min_index'
            (dist_list @ [min_dist]) (ind_list @ [min_index']))"

text \<open>The elements of an array-like \<^verbatim>\<open>sample\<close>.\<close>

fun sample_elements :: "py_sample \<Rightarrow> int list" where
  "sample_elements (SampleList xs) = xs"
| "sample_elements (SampleArray xs) = xs"
| "sample_elements _ = []"

text \<open>The part of \<^verbatim>\<open>distance\<close> after \<^verbatim>\<open>init_ts_copy_from_ndarray\<close>.\<close>

definition distance_dispatch :: "natives \<Rightarrow> measure \<Rightarrow> TSCopy \<Rightarrow> TSDatabase \<Rightarrow> py_sample \<Rightarrow> bool \<Rightarrow> bool \<Rightarrow> distance_result run" where
  "distance_dispatch nats dm shape sd sample subsequence_distance return_index =
     (case sample of
        SampleInt n \<Rightarrow>
          bind (distance_block nats dm shape sd subsequence_distance sample sample None)
            (\<lambda>(min_dist, min_index).
               if return_index then ok (DistIndex min_dist min_index) else ok (Dist min_dist))
      | _ \<Rightarrow>
          bind (lift (check_array_int (sample_elements sample))) (\<lambda>samples.
          bind (distance_loop nats dm shape sd subsequence_distance sample samples None [] [])
            (\<lambda>(dist_list, ind_list).
               if return_index then ok (DistsIndices dist_list ind_list)
               else ok (Dists dist_list))))"

text \<open>
  \<^verbatim>\<open>distance(shapelet, data, dim, sample, metric, metric_params, subsequence_distance,
  return_index)\<close>. The return code of \<^verbatim>\<open>init_ts_copy_from_ndarray\<close> is not looked at.
\<close>

definition distance :: "natives \<Rightarrow> bool \<Rightarrow> ndarray \<Rightarrow> ndarray \<Rightarrow> int \<Rightarrow> py_sample \<Rightarrow> py_metric \<Rightarrow> bool \<Rightarrow> bool \<Rightarrow> distance_result run" where
  "distance nats mem shapelet data_in dimn sample0 metric subsequence_distance return_index =
     bind (lift (validate_shapelet shapelet)) (\<lambda>s.
     bind (lift (validate_data data_in)) (\<lambda>x.
     let sample = default_sample sample0 x in
     bind (lift (ts_database_new x)) (\<lambda>sd.
     bind (lift (check_dim dimn (int (n_dims sd)))) (\<lambda>_.
     bind (lift (new_distance_measure metric (n_timestep sd))) (\<lambda>distance_measure.
     if \<not> subsequence_distance \<and> \<not> support_unaligned nats distance_measure
        \<and> shape0 s \<noteq> n_timestep sd
     then raise ValueError
     else if \<not> support_unaligned nats distance_measure \<and> shape0 s > n_timestep sd
     then raise ValueError
     else
       (case init_ts_copy_from_ndarray distance_measure mem stack_TSCopy s (nat dimn) of
          (tr, shape, err) \<Rightarrow>
            bind (tr, Inr ()) (\<lambda>_.
            distance_dispatch nats distance_measure shape sd sample
              subsequence_distance return_index)))))))"

subsection \<open>The facade function \<^verbatim>\<open>matches\<close>\<close>

datatype matches_result =
    MatchArray "nat list option"
  | DistMatchArray "double list option" "nat list option"
  | MatchList "nat list option list"
  | DistMatchLists "double list option list" "nat list option list"

text \<open>
  The loop \<^verbatim>\<open>for i in samples\<close> of the batch branch. \<open>i\<close> is declared \<^verbatim>\<open>size_t\<close>, so each
  element is coerced when it is assigned.
\<close>

fun matches_loop :: "natives \<Rightarrow> measure \<Rightarrow> TSCopy \<Rightarrow> TSDatabase \<Rightarrow> double \<Rightarrow> int list \<Rightarrow> nat list option list \<Rightarrow> double list option list \<Rightarrow> (nat list option list \<times> double list option list) run" where
  "matches_loop nats dm shape sd threshold [] match_list distance_list =
     ok (match_list, distance_list)"
| "matches_loop nats dm shape sd threshold (e # rest) match_list distance_list =
     bind (lift (as_size_t_int e)) (\<lambda>i.
     bind (lift (check_sample (int i) (int (n_samples sd)))) (\<lambda>_.
     bind (emit (NativeCall SubMatches i)) (\<lambda>_.
     bind (lift (ts_copy_sub_matches nats dm shape sd i threshold)) (\<lambda>mb.
     let match_array = new_match_array (mb_matches mb) (mb_n_matches mb);
         distance_array = new_distance_array (mb_distances mb) (mb_n_matches mb)
     in
     bind (emit (Free MatchesBuf)) (\<lambda>_.
     bind (emit (Free DistancesBuf)) (\<lambda>_.
     matches_loop nats dm shape sd threshold rest
       (match_list @ [match_array]) (distance_list @ [distance_array])))))))"

text \<open>The part of \<^verbatim>\<open>matches\<close> after \<^verbatim>\<open>init_ts_copy_from_ndarray\<close>.\<close>

definition matches_dispatch :: "natives \<Rightarrow> measure \<Rightarrow> TSCopy \<Rightarrow> TSDatabase \<Rightarrow> double \<Rightarrow> py_sample \<Rightarrow> bool \<Rightarrow> matches_result run" where
  "matches_dispatch nats dm shape sd threshold sample return_distance =
     (case sample of
        SampleInt n \<Rightarrow>
          bind (lift (check_sample n (int (n_samples sd)))) (\<lambda>_.
          bind (lift (as_size_t_int n)) (\<lambda>t.
          bind (emit (NativeCall SubMatches t)) (\<lambda>_.
          bind (lift (ts_copy_sub_matches nats dm shape sd t threshold)) (\<lambda>mb.
          let match_array = new_match_array (mb_matches mb) (mb_n_matches mb);
              distance_array = new_distance_array (mb_distances mb) (mb_n_matches mb)
          in
          bind (emit (Free DistancesBuf)) (\<lambda>_.
          bind (emit (Free MatchesBuf)) (\<lambda>_.
          if return_distance then ok (DistMatchArray distance_array match_array)
          else ok (MatchArray match_array)))))))
      | _ \<Rightarrow>
          bind (lift (check_array_int (sample_elements sample))) (\<lambda>samples.
          bind (matches_loop nats dm shape sd threshold samples [] []) (\<lambda>(match_list, distance_list).
          if return_distance then ok (DistMatchLists distance_list match_list)
          else ok (MatchList match_list))))"

text \<open>
  The part of \<^verbatim>\<open>matches\<close> up to and including \<^verbatim>\<open>init_ts_copy_from_ndarray\<close>: it gives the
  measure, the struct \<open>shape\<close>, the database and the \<^verbatim>\<open>sample\<close> object. The dimension is
  checked against \<open>x.ndim\<close>; the return code of \<^verbatim>\<open>init_ts_copy_from_ndarray\<close> is not
  looked at.
\<close>

definition matches_prepare :: "natives \<Rightarrow> bool \<Rightarrow> ndarray \<Rightarrow> ndarray \<Rightarrow> int \<Rightarrow> py_sample \<Rightarrow> py_metric \<Rightarrow> (measure \<times> TSCopy \<times> TSDatabase \<times> py_sample) run" where
  "matches_prepare nats mem shapelet X dimn sample0 metric =
     bind (lift (validate_shapelet shapelet)) (\<lambda>s.
     bind (lift (validate_data X)) (\<lambda>x.
     bind (lift (check_dim dimn (int (ndim x)))) (\<lambda>_.
     let sample = default_sample sample0 x in
     bind (lift (ts_database_new x)) (\<lambda>sd.
     bind (lift (new_distance_measure metric (n_timestep sd))) (\<lambda>distance_measure.
     (case init_ts_copy_from_ndarray distance_measure mem stack_TSCopy s (nat dimn) of
        (tr, shape, err) \<Rightarrow> (tr, Inr (distance_measure, shape, sd, sample))))))))"

text \<open>
  \<^verbatim>\<open>matches(shapelet, X, threshold, dim, sample, metric, metric_params, return_distance)\<close>.
\<close>

definition matches :: "natives \<Rightarrow> bool \<Rightarrow> ndarray \<Rightarrow> ndarray \<Rightarrow> double \<Rightarrow> int \<Rightarrow> py_sample \<Rightarrow> py_metric \<Rightarrow> bool \<Rightarrow> matches_result run" where
  "matches nats mem shapelet X threshold dimn sample0 metric return_distance =
     bind (matches_prepare nats mem shapelet X dimn sample0 metric)
       (\<lambda>(distance_measure, shape, sd, sample).
          matches_dispatch nats distance_measure shape sd threshold sample return_distance)"

subsection \<open>What a call of \<^verbatim>\<open>matches\<close> owes for each sample\<close>

text \<open>
  The number of matches the native method reports for a sample (its out-parameter
  \<open>n_matches\<close>); \<open>None\<close> when the method raises.
\<close>

definition reported_matches :: "natives \<Rightarrow> measure \<Rightarrow> TSCopy \<Rightarrow> TSDatabase \<Rightarrow> double \<Rightarrow> int \<Rightarrow> nat option" where
  "reported_matches nats dm shape sd threshold e =
     (case ts_copy_sub_matches nats dm shape sd (nat e) threshold of
        Inl err \<Rightarrow> None
      | Inr mb \<Rightarrow> Some (mb_n_matches mb))"

text \<open>
  An entry of the result for a sample with \<open>n\<close> reported matches: Python's \<^verbatim>\<open>None\<close>
  exactly when \<open>n = 0\<close>, and otherwise an array of exactly \<open>n\<close> entries.
\<close>

definition absent_or_full :: "nat option \<Rightarrow> 'a list option \<Rightarrow> bool" where
  "absent_or_full reported r =
     (case reported of
        None \<Rightarrow> False
      | Some n \<Rightarrow> (case r of None \<Rightarrow> n = 0 | Some xs \<Rightarrow> 0 < n \<and> length xs = n))"

text \<open>
  The result of a call for the \<^verbatim>\<open>sample\<close> object it worked on: a single sample gives one
  entry (two with \<^verbatim>\<open>return_distance\<close>), a sequence gives one entry per element, in order.
\<close>

definition matches_result_ok :: "(int \<Rightarrow> nat option) \<Rightarrow> py_sample \<Rightarrow> bool \<Rightarrow> matches_result \<Rightarrow> bool" where
  "matches_result_ok reported sample return_distance res =
     (case sample of
        SampleInt n \<Rightarrow>
          (if return_distance then
             (case res of
                DistMatchArray d m \<Rightarrow>
                  absent_or_full (reported n) m \<and> absent_or_full (reported n) d
              | _ \<Rightarrow> False)
           else
             (case res of MatchArray m \<Rightarrow> absent_or_full (reported n) m | _ \<Rightarrow> False))
      | _ \<Rightarrow>
          (if return_distance then
             (case res of
                DistMatchLists dl ml \<Rightarrow>
                  list_all2 (\<lambda>e m. absent_or_full (reported e) m) (sample_elements sample) ml
                  \<and> list_all2 (\<lambda>e d. absent_or_full (reported e) d) (sample_elements sample) dl
              | _ \<Rightarrow> False)
           else
             (case res of
                MatchList ml \<Rightarrow>
                  list_all2 (\<lambda>e m. absent_or_full (reported e) m) (sample_elements sample) ml
              | _ \<Rightarrow> False)))"

subsection \<open>Concrete inputs\<close>

text \<open>
  The patterns \<open>[1, 2]\<close> and \<open>[1, 2, 3]\<close>; the data \<open>[[1, 2]]\<close> and \<open>[[1, 2], [3, 4]]\<close>; the
  databases \<^verbatim>\<open>ts_database_new\<close> builds for \<open>[[1, 2]]\<close> and for \<open>[[1, 3]]\<close>.
\<close>

definition pattern_1_2 :: ndarray where
  "pattern_1_2 = \<lparr>nd_shape = [2], nd_data = [Fin 1, Fin 2]\<rparr>"

definition pattern_1_2_3 :: ndarray where
  "pattern_1_2_3 = \<lparr>nd_shape = [3], nd_data = [Fin 1, Fin 2, Fin 3]\<rparr>"

definition series_1x2 :: ndarray where
  "series_1x2 = \<lparr>nd_shape = [1, 2], nd_data = [Fin 1, Fin 2]\<rparr>"

definition series_2x2 :: ndarray where
  "series_2x2 = \<lparr>nd_shape = [2, 2], nd_data = [Fin 1, Fin 2, Fin 3, Fin 4]\<rparr>"

definition db_1x2 :: TSDatabase where
  "db_1x2 = \<lparr>n_samples = 1, n_timestep = 2, n_dims = 1, data = [Fin 1, Fin 2],
              sample_stride = 2, dim_stride = 0, timestep_stride = 1\<rparr>"

definition db_1_3 :: TSDatabase where
  "db_1_3 = \<lparr>n_samples = 1, n_timestep = 2, n_dims = 1, data = [Fin 1, Fin 3],
              sample_stride = 2, dim_stride = 0, timestep_stride = 1\<rparr>"

text \<open>The measure \<^verbatim>\<open>new_distance_measure("euclidean", 2)\<close> constructs.\<close>

definition euclidean_2 :: measure where
  "euclidean_2 = \<lparr>m_class = EuclideanDistance, m_n_timestep = 2, m_func = None\<rparr>"

text \<open>
  The struct \<open>shape\<close> after \<^verbatim>\<open>DistanceMeasure.init_ts_copy_from_ndarray\<close> for dimension
  \<open>dimn\<close>, data pointer \<open>buf\<close> and length \<open>len\<close>.
\<close>

definition copy_of :: "nat \<Rightarrow> double list option \<Rightarrow> nat \<Rightarrow> TSCopy" where
  "copy_of dimn buf len = \<lparr>tc_dim = dimn, tc_length = len, tc_mean = NaN, tc_std = NaN,
                            tc_data = buf, tc_ts_start = None, tc_ts_index = None\<rparr>"

text \<open>A view of the whole of sample \<open>0\<close>, dimension \<open>0\<close>, as the base initialiser leaves it.\<close>

definition view_0_2 :: TSView where
  "view_0_2 = \<lparr>tv_index = 0, tv_start = 0, tv_length = 2, tv_dim = 0, tv_mean = NaN,
                tv_std = NaN, tv_extra = None\<rparr>"

text \<open>
  An instance of the registry classes' methods, to run the facade on a concrete input:
  for sample \<open>0\<close> the match routine reports the two offsets \<open>0\<close> and \<open>1\<close>, for every other
  sample it reports none.
\<close>

definition two_then_none :: natives where
  "two_then_none =
     \<lparr>nat_support_unaligned = (\<lambda>m. False),
      nat_sub_distance = (\<lambda>m s td t. Inr (Fin 0, Some 0)),
      nat_distance = (\<lambda>m s td t. Inr (Fin 0)),
      nat_sub_matches = (\<lambda>m s td t threshold.
         Inr \<lparr>mb_matches = (\<lambda>i. i), mb_distances = (\<lambda>i. Fin 0),
              mb_n_matches = (if t = 0 then 2 else 0)\<rparr>)\<rparr>"

section \<open>Properties\<close>

subsection \<open>Unfolding and evaluation\<close>

lemmas run_defs = bind_def lift_def ok_def raise_def emit_def

lemmas facade_defs = validate_shapelet_def validate_data_def check_array_def ndim_def shape0_def
  ts_database_new_def check_dim_def check_sample_def new_distance_measure_def DISTANCE_MEASURE_def
  default_sample_def support_unaligned_def init_ts_copy_from_ndarray_def
  base_init_ts_copy_from_ndarray_def stack_TSCopy_def as_size_t_int_def check_array_int_def
  DistanceMeasure_support_unaligned_def FuncDistanceMeasure_support_unaligned_def

lemmas input_defs = pattern_1_2_def pattern_1_2_3_def series_1x2_def series_2x2_def
  euclidean_2_def db_1x2_def db_1_3_def copy_of_def view_0_2_def

lemma bind_Inr:
  assumes "bind m f = (tr, Inr b)"
  obtains tr1 a tr2 where "m = (tr1, Inr a)" and "f a = (tr2, Inr b)" and "tr = tr1 @ tr2"
  using assms by (auto simp: bind_def split: prod.splits sum.splits)

lemma lift_Inr: "lift r = (tr, Inr a) \<Longrightarrow> r = Inr a"
  by (simp add: lift_def)

lemma ok_Inr: "ok a = (tr, Inr b) \<Longrightarrow> a = b"
  by (simp add: ok_def)

lemma as_size_t_int_Inr: "as_size_t_int e = Inr i \<Longrightarrow> i = nat e"
  by (auto simp: as_size_t_int_def split: if_splits)

subsection \<open>Events of the facade\<close>

lemma bind_no_event:
  assumes "ev \<notin> set (fst m)" and "\<And>a. ev \<notin> set (fst (f a))"
  shows "ev \<notin> set (fst (bind m f))"
proof (cases m)
  case (Pair tr r)
  show ?thesis
  proof (cases r)
    case (Inl e)
    with Pair assms(1) show ?thesis by (simp add: bind_def)
  next
    case (Inr a)
    with Pair assms(1) assms(2)[of a] show ?thesis
      by (cases "f a") (simp add: bind_def)
  qed
qed

lemma lift_no_event: "ev \<notin> set (fst (lift r))"
  by (simp add: lift_def)

lemma ok_no_event: "ev \<notin> set (fst (ok r))"
  by (simp add: ok_def)

lemma raise_no_event: "ev \<notin> set (fst (raise r))"
  by (simp add: raise_def)

lemma emit_other_event: "ev \<noteq> ev' \<Longrightarrow> ev \<notin> set (fst (emit ev'))"
  by (simp add: emit_def)

lemma init_ts_copy_no_free:
  "init_ts_copy_from_ndarray m mem tc arr dimn = (tr, shape, err) \<Longrightarrow> Free b \<notin> set tr"
  by (auto simp: init_ts_copy_from_ndarray_def scaled_init_ts_copy_from_ndarray_def
       base_init_ts_copy_from_ndarray_def Let_def split: prod.splits if_splits)

lemma distance_block_no_free:
  "Free b \<notin> set (fst (distance_block nats dm shape sd sub sa wa mi))"
proof (cases sub)
  case True
  then show ?thesis
    unfolding distance_block_def
    by (simp only: if_True)
       (intro bind_no_event lift_no_event emit_other_event, simp, simp add: split_def ok_no_event)
next
  case False
  then show ?thesis
    unfolding distance_block_def
    by (simp only: if_False)
       (intro bind_no_event lift_no_event emit_other_event ok_no_event, simp)
qed

lemma distance_loop_no_free:
  "Free b \<notin> set (fst (distance_loop nats dm shape sd sub sample es mi dl il))"
proof (induction es arbitrary: mi dl il)
  case Nil
  show ?case by (simp add: ok_no_event)
next
  case (Cons e es)
  show ?case
    by (simp only: distance_loop.simps)
       (intro bind_no_event distance_block_no_free, simp add: split_def Cons.IH)
qed

lemma distance_dispatch_no_free:
  "Free b \<notin> set (fst (distance_dispatch nats dm shape sd sample sub ret))"
proof -
  have single: "\<And>s. Free b \<notin> set (fst (bind (distance_block nats dm shape sd sub s s None)
            (\<lambda>(min_dist, min_index).
               if ret then ok (DistIndex min_dist min_index) else ok (Dist min_dist))))"
    by (intro bind_no_event distance_block_no_free) (simp add: split_def ok_no_event)
  have batch: "Free b \<notin> set (fst (bind (lift (check_array_int (sample_elements sample))) (\<lambda>samples.
          bind (distance_loop nats dm shape sd sub sample samples None [] [])
            (\<lambda>(dist_list, ind_list).
               if ret then ok (DistsIndices dist_list ind_list)
               else ok (Dists dist_list)))))"
    by (intro bind_no_event lift_no_event distance_loop_no_free) (simp add: split_def ok_no_event)
  show ?thesis
    unfolding distance_dispatch_def using single batch by (cases sample) simp_all
qed

lemma distance_tail_no_free:
  "Free b \<notin> set (fst (case init_ts_copy_from_ndarray dm mem stack_TSCopy s d of
          (tr, shape, err) \<Rightarrow>
            bind (tr, Inr ()) (\<lambda>_. distance_dispatch nats dm shape sd sample sub ret)))"
proof (cases "init_ts_copy_from_ndarray dm mem stack_TSCopy s d")
  case (fields tr shape err)
  from init_ts_copy_no_free[OF fields] have "Free b \<notin> set (fst (tr, Inr ()))" by simp
  then show ?thesis
    unfolding fields prod.case
    by (intro bind_no_event distance_dispatch_no_free)
qed

lemma distance_never_frees:
  "Free b \<notin> set (fst (distance nats mem shapelet data_in dimn sample0 metric sub ret))"
  unfolding distance_def Let_def
  by (intro bind_no_event lift_no_event)
     (simp add: raise_no_event distance_tail_no_free)

lemma matches_loop_no_shape_free:
  "Free ShapeData \<notin> set (fst (matches_loop nats dm shape sd threshold es ml dl))"
proof (induction es arbitrary: ml dl)
  case Nil
  show ?case by (simp add: ok_no_event)
next
  case (Cons e es)
  show ?case
    by (simp only: matches_loop.simps Let_def)
       (intro bind_no_event lift_no_event emit_other_event Cons.IH; simp)
qed

lemma matches_dispatch_no_shape_free:
  "Free ShapeData \<notin> set (fst (matches_dispatch nats dm shape sd threshold sample rd))"
proof -
  have single: "\<And>n. Free ShapeData \<notin> set (fst (
          bind (lift (check_sample n (int (n_samples sd)))) (\<lambda>_.
          bind (lift (as_size_t_int n)) (\<lambda>t.
          bind (emit (NativeCall SubMatches t)) (\<lambda>_.
          bind (lift (ts_copy_sub_matches nats dm shape sd t threshold)) (\<lambda>mb.
          bind (emit (Free DistancesBuf)) (\<lambda>_.
          bind (emit (Free MatchesBuf)) (\<lambda>_.
          if rd then ok (DistMatchArray (new_distance_array (mb_distances mb) (mb_n_matches mb))
                           (new_match_array (mb_matches mb) (mb_n_matches mb)))
          else ok (MatchArray (new_match_array (mb_matches mb) (mb_n_matches mb)))))))))))"
    by (intro bind_no_event lift_no_event emit_other_event; simp add: ok_no_event)
  have batch: "Free ShapeData \<notin> set (fst (
          bind (lift (check_array_int (sample_elements sample))) (\<lambda>samples.
          bind (matches_loop nats dm shape sd threshold samples [] []) (\<lambda>(match_list, distance_list).
          if rd then ok (DistMatchLists distance_list match_list)
          else ok (MatchList match_list)))))"
    by (intro bind_no_event lift_no_event matches_loop_no_shape_free) (simp add: split_def ok_no_event)
  show ?thesis
    unfolding matches_dispatch_def Let_def using single batch by (cases sample) simp_all
qed

lemma matches_prepare_no_free:
  "Free b \<notin> set (fst (matches_prepare nats mem shapelet X dimn sample0 metric))"
proof -
  have tail: "\<And>dm s sd sample. Free b \<notin> set (fst (case init_ts_copy_from_ndarray dm mem stack_TSCopy s (nat dimn) of
        (tr, shape, err) \<Rightarrow> (tr, Inr (dm, shape, sd, sample))))"
    by (simp add: split_def) (metis init_ts_copy_no_free prod.collapse)
  show ?thesis
    unfolding matches_prepare_def Let_def
    by (intro bind_no_event lift_no_event tail)
qed

lemma matches_never_frees_shape:
  "Free ShapeData \<notin> set (fst (matches nats mem shapelet X threshold dimn sample0 metric rd))"
  unfolding matches_def
  by (intro bind_no_event matches_prepare_no_free) (simp add: split_def matches_dispatch_no_shape_free)

subsection \<open>Entries of the result of \<^verbatim>\<open>matches\<close>\<close>

lemma new_match_array_full: "absent_or_full (Some n) (new_match_array buf n)"
  by (simp add: absent_or_full_def new_match_array_def)

lemma new_distance_array_full: "absent_or_full (Some n) (new_distance_array buf n)"
  by (simp add: absent_or_full_def new_distance_array_def)

lemma reported_matches_Inr:
  "ts_copy_sub_matches nats dm shape sd (nat e) threshold = Inr mb \<Longrightarrow>
   reported_matches nats dm shape sd threshold e = Some (mb_n_matches mb)"
  by (simp add: reported_matches_def)

text \<open>
  The loop appends, for each element in turn, one entry to each list, and the entry is
  as the number of matches reported for that element demands.
\<close>

lemma matches_loop_entries:
  assumes "matches_loop nats dm shape sd threshold es ml0 dl0 = (tr, Inr (ml, dl))"
  shows "\<exists>ml' dl'. ml = ml0 @ ml' \<and> dl = dl0 @ dl'
           \<and> list_all2 (\<lambda>e m. absent_or_full (reported_matches nats dm shape sd threshold e) m) es ml'
           \<and> list_all2 (\<lambda>e d. absent_or_full (reported_matches nats dm shape sd threshold e) d) es dl'"
  using assms
proof (induction es arbitrary: ml0 dl0 tr)
  case Nil
  then show ?case by (simp add: ok_def)
next
  case (Cons e rest)
  from Cons.prems obtain i mb tr' where
    i: "as_size_t_int e = Inr i"
    and mb: "ts_copy_sub_matches nats dm shape sd i threshold = Inr mb"
    and rest: "matches_loop nats dm shape sd threshold rest
                 (ml0 @ [new_match_array (mb_matches mb) (mb_n_matches mb)])
                 (dl0 @ [new_distance_array (mb_distances mb) (mb_n_matches mb)]) = (tr', Inr (ml, dl))"
    by (auto simp: Let_def elim!: bind_Inr dest!: lift_Inr)
  from i have "i = nat e" by (rule as_size_t_int_Inr)
  with mb have rep: "reported_matches nats dm shape sd threshold e = Some (mb_n_matches mb)"
    by (simp add: reported_matches_Inr)
  from Cons.IH[OF rest] obtain ml' dl' where
    "ml = (ml0 @ [new_match_array (mb_matches mb) (mb_n_matches mb)]) @ ml'"
    "dl = (dl0 @ [new_distance_array (mb_distances mb) (mb_n_matches mb)]) @ dl'"
    "list_all2 (\<lambda>e m. absent_or_full (reported_matches nats dm shape sd threshold e) m) rest ml'"
    "list_all2 (\<lambda>e d. absent_or_full (reported_matches nats dm shape sd threshold e) d) rest dl'"
    by blast
  with rep show ?case
    by (intro exI[of _ "new_match_array (mb_matches mb) (mb_n_matches mb) # ml'"]
              exI[of _ "new_distance_array (mb_distances mb) (mb_n_matches mb) # dl'"])
       (simp add: new_match_array_full new_distance_array_full)
qed

lemma matches_dispatch_ok:
  assumes "matches_dispatch nats dm shape sd threshold sample return_distance = (tr, Inr res)"
  shows "matches_result_ok (reported_matches nats dm shape sd threshold) sample return_distance res"
proof (cases sample)
  case (SampleInt n)
  with assms obtain t mb where
    t: "as_size_t_int n = Inr t"
    and mb: "ts_copy_sub_matches nats dm shape sd t threshold = Inr mb"
    and res: "res = (if return_distance
                     then DistMatchArray (new_distance_array (mb_distances mb) (mb_n_matches mb))
                                         (new_match_array (mb_matches mb) (mb_n_matches mb))
                     else MatchArray (new_match_array (mb_matches mb) (mb_n_matches mb)))"
    by (auto simp: matches_dispatch_def Let_def elim!: bind_Inr dest!: lift_Inr ok_Inr split: if_splits)
  from t have "t = nat n" by (rule as_size_t_int_Inr)
  with mb have "reported_matches nats dm shape sd threshold n = Some (mb_n_matches mb)"
    by (simp add: reported_matches_Inr)
  with res SampleInt show ?thesis
    by (simp add: matches_result_ok_def new_match_array_full new_distance_array_full)
next
  case SampleNone
  with assms show ?thesis
    by (auto simp: matches_dispatch_def matches_result_ok_def check_array_int_def
             elim!: bind_Inr dest!: lift_Inr)
next
  case (SampleList xs)
  with assms obtain tr' ml dl where
    loop: "matches_loop nats dm shape sd threshold xs [] [] = (tr', Inr (ml, dl))"
    and res: "res = (if return_distance then DistMatchLists dl ml else MatchList ml)"
    by (auto simp: matches_dispatch_def check_array_int_def
             elim!: bind_Inr dest!: lift_Inr ok_Inr split: if_splits)
  from matches_loop_entries[OF loop] res SampleList show ?thesis
    by (auto simp: matches_result_ok_def)
next
  case (SampleArray xs)
  with assms obtain tr' ml dl where
    loop: "matches_loop nats dm shape sd threshold xs [] [] = (tr', Inr (ml, dl))"
    and res: "res = (if return_distance then DistMatchLists dl ml else MatchList ml)"
    by (auto simp: matches_dispatch_def check_array_int_def
             elim!: bind_Inr dest!: lift_Inr ok_Inr split: if_splits)
  from matches_loop_entries[OF loop] res SampleArray show ?thesis
    by (auto simp: matches_result_ok_def)
qed

subsection \<open>The claims\<close>

text \<open>
  Claim C1. In batch mode without subsequence distance, entry \<open>i\<close> of the output is to be
  the whole-series distance to the \<open>i\<close>-th sample index. On the pattern \<open>[1, 2]\<close>, the data
  \<open>[[1, 2], [3, 4]]\<close> and \<^verbatim>\<open>sample = [0, 1]\<close> the code passes the list \<^verbatim>\<open>sample\<close> itself, not
  the loop variable, as the \<^verbatim>\<open>size_t\<close> index of \<^verbatim>\<open>ts_copy_distance\<close>: the call ends with a
  \<^verbatim>\<open>TypeError\<close> in the first iteration, after the allocation and before any native
  computation, whatever the measure's methods are.
\<close>

theorem distance_batch_whole_series_passes_sample_object:
  "distance nats True pattern_1_2 series_2x2 0 (SampleList [0, 1]) (MetricStr ''euclidean'')
     False False
   = ([Malloc ShapeData], Inl TypeError)"
  by (simp add: distance_def distance_dispatch_def distance_block_def run_defs facade_defs
        input_defs)

text \<open>
  Claim C2. An out-of-range sample index is to be refused before any native computation.
  \<^verbatim>\<open>distance\<close> never calls \<^verbatim>\<open>_check_sample\<close>: with the single sample index \<open>5\<close> on the
  one-sample data \<open>[[1, 2]]\<close> it allocates the pattern, enters the native
  \<^verbatim>\<open>ts_copy_sub_distance\<close> with \<open>t_index = 5\<close>, and returns whatever that method gives.
\<close>

theorem distance_does_not_check_sample:
  "distance nats True pattern_1_2 series_1x2 0 (SampleInt 5) (MetricStr ''euclidean'') True False
   = ([Malloc ShapeData, NativeCall SubDistance 5],
      case nat_sub_distance nats euclidean_2 (copy_of 0 (Some [Fin 1, Fin 2]) 2) db_1x2 5 of
        Inl e \<Rightarrow> Inl e
      | Inr r \<Rightarrow> Inr (Dist (fst r)))"
  by (simp add: distance_def distance_dispatch_def distance_block_def run_defs facade_defs
        input_defs ts_copy_sub_distance_def in_this_file_def upt_conv_Cons
        split: sum.split prod.split)

text \<open>
  Claim C3. The dimension is to be checked against the number of dimensions \<open>n_dims\<close> of
  the data. \<^verbatim>\<open>matches\<close> checks it against the rank \<open>x.ndim\<close> instead: the data \<open>[[1, 2]]\<close>
  has \<open>n_dims = 1\<close> and rank \<open>2\<close>, so \<open>dim = 1\<close> passes, the pattern is allocated with
  \<open>dim = 1\<close> and the native \<^verbatim>\<open>ts_copy_sub_matches\<close> is entered.
\<close>

theorem matches_checks_dim_against_rank:
  "ts_database_new series_1x2 = Inr db_1x2 \<and> n_dims db_1x2 = 1 \<and>
   matches nats True pattern_1_2 series_1x2 threshold 1 (SampleInt 0) (MetricStr ''euclidean'')
     False
   = (case nat_sub_matches nats euclidean_2 (copy_of 1 (Some [Fin 1, Fin 2]) 2) db_1x2 0
            threshold of
        Inl e \<Rightarrow> ([Malloc ShapeData, NativeCall SubMatches 0], Inl e)
      | Inr mb \<Rightarrow>
          ([Malloc ShapeData, NativeCall SubMatches 0, Free DistancesBuf, Free MatchesBuf],
           Inr (MatchArray (new_match_array (mb_matches mb) (mb_n_matches mb)))))"
  by (simp add: matches_def matches_prepare_def matches_dispatch_def run_defs facade_defs
        input_defs ts_copy_sub_matches_def in_this_file_def upt_conv_Cons Let_def
        split: sum.split prod.split)

text \<open>
  Claim C4. \<^verbatim>\<open>init_ts_view\<close> is to return a non-negative value on every valid input and, for
  a scaled measure, to leave the mean and the standard deviation of the slice in the view.
  \<^verbatim>\<open>ScaledDistanceMeasure.init_ts_view\<close> on the whole of the series \<open>[1, 2]\<close> returns \<open>-1\<close>,
  and the view it leaves has \<^verbatim>\<open>NAN\<close> for both statistics.
\<close>

theorem scaled_init_ts_view_returns_minus_one:
  "init_ts_view ScaledDistanceMeasure db_1x2 tv 0 0 2 0
   = Inr (tv\<lparr>tv_index := 0, tv_dim := 0, tv_start := 0, tv_length := 2,
             tv_mean := NaN, tv_std := NaN, tv_extra := None\<rparr>, -1)"
  by (simp add: init_ts_view_def scaled_init_ts_view_def base_init_ts_view_def
        ts_view_update_statistics_def local_statistics_def read_at_def db_1x2_def upt_conv_Cons)

text \<open>
  Claim C5. A failed allocation of the pattern's buffer is to fail the whole call with an
  allocation error. With a callable metric and an allocator that returns null, \<^verbatim>\<open>distance\<close>
  drops the return code \<open>-1\<close> of \<^verbatim>\<open>init_ts_copy_from_ndarray\<close> and enters
  \<^verbatim>\<open>FuncDistanceMeasure.ts_copy_sub_distance\<close>, which reads through the null pointer.
\<close>

theorem distance_ignores_allocation_failure:
  "distance nats False pattern_1_2 series_1x2 0 (SampleInt 0) (MetricCallable f) True False
   = ([MallocNull ShapeData, NativeCall SubDistance 0], Inl MemoryFault)"
  by (simp add: distance_def distance_dispatch_def distance_block_def run_defs facade_defs
        input_defs ts_copy_sub_distance_def func_ts_copy_sub_distance_def read_at_def
        in_this_file_def upt_conv_Cons split: sum.split prod.split)

text \<open>
  Claim C6. The pattern's buffer is to be freed exactly once before the call returns. A
  successful call of \<^verbatim>\<open>distance\<close> on the pattern \<open>[1, 2]\<close> and the data \<open>[[1, 2]]\<close> allocates
  the buffer, runs the native method and returns; its events hold no \<^verbatim>\<open>free\<close>. No call of
  \<^verbatim>\<open>distance\<close> frees any buffer, and no call of \<^verbatim>\<open>matches\<close> frees the pattern's buffer.
\<close>

theorem shape_buffer_never_freed:
  "distance nats True pattern_1_2 series_1x2 0 (SampleInt 0) (MetricCallable f) True False
     = ([Malloc ShapeData, NativeCall SubDistance 0], Inr (Dist (f [Fin 1, Fin 2] [Fin 1, Fin 2])))
   \<and> Free ShapeData \<notin> set (fst (distance nats' mem shapelet data_in dimn sample metric
                                   subsequence_distance return_index))
   \<and> Free ShapeData \<notin> set (fst (matches nats' mem shapelet data_in threshold dimn sample metric
                                   return_distance))"
proof -
  have "distance nats True pattern_1_2 series_1x2 0 (SampleInt 0) (MetricCallable f) True False
     = ([Malloc ShapeData, NativeCall SubDistance 0], Inr (Dist (f [Fin 1, Fin 2] [Fin 1, Fin 2])))"
    by (simp add: distance_def distance_dispatch_def distance_block_def run_defs facade_defs
          input_defs ts_copy_sub_distance_def func_ts_copy_sub_distance_def read_at_def
          in_this_file_def upt_conv_Cons split: sum.split prod.split)
  then show ?thesis
    using distance_never_frees matches_never_frees_shape by blast
qed

text \<open>
  Claim C7, as stated: \<^verbatim>\<open>support_unaligned\<close> is false for the base measure and true for
  \<open>FuncDistanceMeasure\<close>. The second half fails: the override returns \<^verbatim>\<open>False\<close>.
\<close>

theorem func_support_unaligned_is_not_true:
  "\<not> (DistanceMeasure_support_unaligned = False \<and> FuncDistanceMeasure_support_unaligned = True)"
  by (simp add: FuncDistanceMeasure_support_unaligned_def)

text \<open>
  Claim C7, amended: \<^verbatim>\<open>support_unaligned\<close> returns false for the base measure and false
  for \<open>FuncDistanceMeasure\<close>, whatever the instance holds.
\<close>

theorem support_unaligned_false_for_base_and_func:
  "support_unaligned nats \<lparr>m_class = DistanceMeasure, m_n_timestep = n, m_func = g\<rparr> = False
   \<and> support_unaligned nats \<lparr>m_class = FuncDistanceMeasure, m_n_timestep = n, m_func = g\<rparr> = False"
  by (simp add: support_unaligned_def DistanceMeasure_support_unaligned_def
        FuncDistanceMeasure_support_unaligned_def)

text \<open>
  Claim C8. A pattern longer than the series is to be refused before any distance
  computation, in \<^verbatim>\<open>distance\<close> and in \<^verbatim>\<open>matches\<close>. \<^verbatim>\<open>matches\<close> compares no lengths: with
  the pattern \<open>[1, 2, 3]\<close> and the data \<open>[[1, 2]]\<close> it allocates the pattern and enters the
  native \<^verbatim>\<open>ts_copy_sub_matches\<close> with a pattern of length \<open>3\<close> on a series of length \<open>2\<close>,
  whether or not the measure supports unaligned input.
\<close>

theorem matches_does_not_check_pattern_length:
  "matches nats True pattern_1_2_3 series_1x2 threshold 0 (SampleInt 0) (MetricStr ''euclidean'')
     False
   = (case nat_sub_matches nats euclidean_2 (copy_of 0 (Some [Fin 1, Fin 2, Fin 3]) 3) db_1x2 0
            threshold of
        Inl e \<Rightarrow> ([Malloc ShapeData, NativeCall SubMatches 0], Inl e)
      | Inr mb \<Rightarrow>
          ([Malloc ShapeData, NativeCall SubMatches 0, Free DistancesBuf, Free MatchesBuf],
           Inr (MatchArray (new_match_array (mb_matches mb) (mb_n_matches mb)))))"
  by (simp add: matches_def matches_prepare_def matches_dispatch_def run_defs facade_defs
        input_defs ts_copy_sub_matches_def in_this_file_def upt_conv_Cons Let_def
        split: sum.split prod.split)

text \<open>
  Claim C9. For a scaled measure the statistics cached in a pattern are to be the mean and
  the population standard deviation of its values. For a view of the series \<open>[1, 3]\<close>,
  \<^verbatim>\<open>_ts_view_update_statistics\<close> computes mean \<open>2\<close> and standard deviation \<open>1\<close> in its local
  copy of the struct and returns with the caller's struct unchanged, so the view that
  \<^verbatim>\<open>ScaledDistanceMeasure.init_ts_view\<close> leaves still holds \<^verbatim>\<open>NAN\<close> for both.
\<close>

theorem scaled_view_statistics_not_stored:
  "local_statistics view_0_2 db_1_3 = Inr (view_0_2\<lparr>tv_mean := Fin 2, tv_std := Fin 1\<rparr>)
   \<and> ts_view_update_statistics view_0_2 db_1_3 = Inr (view_0_2, 0)
   \<and> init_ts_view ScaledDistanceMeasure db_1_3 tv 0 0 2 0 = Inr (view_0_2, -1)
   \<and> tv_mean view_0_2 = NaN \<and> tv_std view_0_2 = NaN"
  by (simp add: init_ts_view_def scaled_init_ts_view_def base_init_ts_view_def
        ts_view_update_statistics_def local_statistics_def read_at_def db_1_3_def view_0_2_def
        upt_conv_Cons Let_def)

text \<open>
  Claim C10. Whenever a call of \<^verbatim>\<open>matches\<close> returns, its result has, for the single sample
  or for each element of the sample sequence in order, an offsets entry (and with
  \<^verbatim>\<open>return_distance\<close> a distances entry) that is \<^verbatim>\<open>None\<close> when the native method reported
  no match for that sample, and otherwise an array whose length is exactly the number of
  matches reported.
\<close>

theorem matches_absent_or_full_length:
  assumes "matches nats mem shapelet X threshold dimn sample0 metric return_distance = (tr, Inr res)"
  shows "\<exists>tr0 dm shape sd sample.
           matches_prepare nats mem shapelet X dimn sample0 metric
             = (tr0, Inr (dm, shape, sd, sample))
           \<and> matches_result_ok (reported_matches nats dm shape sd threshold) sample
               return_distance res"
proof -
  from assms obtain tr0 dm shape sd sample tr1 where
    prep: "matches_prepare nats mem shapelet X dimn sample0 metric = (tr0, Inr (dm, shape, sd, sample))"
    and disp: "matches_dispatch nats dm shape sd threshold sample return_distance = (tr1, Inr res)"
    unfolding matches_def by (elim bind_Inr) auto
  from matches_dispatch_ok[OF disp] prep show ?thesis by blast
qed

text \<open>
  Claim C10 on the pattern \<open>[1, 2]\<close>, the data \<open>[[1, 2], [3, 4]]\<close> and \<^verbatim>\<open>sample = [0, 1]\<close>,
  with distances returned: sample \<open>0\<close> has two matches and gets two arrays of two entries,
  sample \<open>1\<close> has none and gets \<^verbatim>\<open>None\<close> twice.
\<close>

theorem matches_absent_or_full_length_witness:
  "matches two_then_none True pattern_1_2 series_2x2 (Fin 1) 0 (SampleList [0, 1])
     (MetricStr ''euclidean'') True
   = ([Malloc ShapeData, NativeCall SubMatches 0, Free MatchesBuf, Free DistancesBuf,
       NativeCall SubMatches 1, Free MatchesBuf, Free DistancesBuf],
      Inr (DistMatchLists [Some [Fin 0, Fin 0], None] [Some [0, 1], None]))
   \<and> (\<exists>tr0 dm shape sd sample.
         matches_prepare two_then_none True pattern_1_2 series_2x2 0 (SampleList [0, 1])
           (MetricStr ''euclidean'') = (tr0, Inr (dm, shape, sd, sample))
         \<and> matches_result_ok (reported_matches two_then_none dm shape sd (Fin 1)) sample True
             (DistMatchLists [Some [Fin 0, Fin 0], None] [Some [0, 1], None]))"
proof -
  have run: "matches two_then_none True pattern_1_2 series_2x2 (Fin 1) 0 (SampleList [0, 1])
       (MetricStr ''euclidean'') True
     = ([Malloc ShapeData, NativeCall SubMatches 0, Free MatchesBuf, Free DistancesBuf,
         NativeCall SubMatches 1, Free MatchesBuf, Free DistancesBuf],
        Inr (DistMatchLists [Some [Fin 0, Fin 0], None] [Some [0, 1], None]))"
    by (simp add: matches_def matches_prepare_def matches_dispatch_def run_defs facade_defs
          input_defs ts_copy_sub_matches_def in_this_file_def two_then_none_def
          new_match_array_def new_distance_array_def upt_conv_Cons Let_def)
  from matches_absent_or_full_length[OF run] run show ?thesis by simp
qed

end
